theory Spec2Isabelle
  imports Complex_Main "HOL-Library.AList"
begin

section \<open>Values, records and the user store\<close>

text \<open>
  The program keeps its users in a Python dict from user id (a string) to a record, itself
  a dict from field name to value. Both are association lists here: a Python dict keeps
  insertion order, an assignment to a key that is present replaces the value where it
  stands and an assignment to a new key appends, which is what \<open>AList.update\<close> does.
  Descriptor components are Python floats; they are modelled as real numbers, so rounding,
  overflow and NaN are outside the model.
\<close>

datatype error = KeyError | TypeError | IndexError | ZeroDivisionError

datatype pyval = PStr string | PInt int | PFloats "real list"

type_synonym user_data = "(string \<times> pyval) list"

type_synonym user_dict = "(string \<times> user_data) list"

text \<open>
  The state of a \<open>UserManager\<close>: the dict \<open>self.users\<close>, and the log of the calls of
  \<open>save_db\<close>, each with the dict handed to \<open>json.dump\<close> and whether the write succeeded.
\<close>

record app_state =
  users :: user_dict
  saves :: "(user_dict \<times> bool) list"

subsection \<open>\<open>str\<close> of an integer\<close>

definition digit_char :: "nat \<Rightarrow> char" where
  "digit_char d = ''0123456789'' ! d"

fun str_nat :: "nat \<Rightarrow> string" where
  "str_nat n = (if n < 10 then [digit_char n] else str_nat (n div 10) @ [digit_char (n mod 10)])"

declare str_nat.simps [simp del]

definition py_str :: "int \<Rightarrow> string" where
  "py_str i = (if i < 0 then CHR ''-'' # str_nat (nat (- i)) else str_nat (nat i))"

subsection \<open>\<open>UserManager\<close>: save, add, delete, get\<close>

text \<open>
  \<open>save_db\<close> catches every exception of the write and returns whether it succeeded; the
  outcome of the write is an input \<open>ok\<close> of the model.
\<close>

definition save_db :: "bool \<Rightarrow> app_state \<Rightarrow> bool \<times> app_state" where
  "save_db ok s = (ok, s\<lparr>saves := saves s @ [(users s, ok)]\<rparr>)"

text \<open>
  \<open>add_user name features\<close>, with the readings of \<open>time.ticks_ms()\<close> and
  \<open>str(time.localtime())\<close> and the outcome of the write as inputs. It returns the pair
  \<open>(self.save_db(), user_id)\<close>.
\<close>

definition new_user_record :: "string \<Rightarrow> real list \<Rightarrow> string \<Rightarrow> user_data" where
  "new_user_record name features localtime =
     [(''name'', PStr name),
      (''features'', PFloats features),
      (''registered_at'', PStr localtime),
      (''samples_count'', PInt 1)]"

definition add_user ::
  "string \<Rightarrow> real list \<Rightarrow> int \<Rightarrow> string \<Rightarrow> bool \<Rightarrow> app_state \<Rightarrow> (bool \<times> string) \<times> app_state" where
  "add_user name features ticks_ms localtime ok s =
     (let user_id = py_str ticks_ms;
          s1 = s\<lparr>users := AList.update user_id (new_user_record name features localtime) (users s)\<rparr>;
          (saved, s2) = save_db ok s1
      in ((saved, user_id), s2))"

definition delete_user :: "string \<Rightarrow> bool \<Rightarrow> app_state \<Rightarrow> bool \<times> app_state" where
  "delete_user user_id ok s =
     (if user_id \<in> fst ` set (users s)
      then save_db ok (s\<lparr>users := AList.delete user_id (users s)\<rparr>)
      else (False, s))"

definition get_user :: "app_state \<Rightarrow> string \<Rightarrow> user_data option" where
  "get_user s user_id = map_of (users s) user_id"

definition get_all_users :: "app_state \<Rightarrow> (string \<times> user_data) list" where
  "get_all_users s = users s"

section \<open>Cosine similarity and the matcher\<close>

text \<open>
  \<open>dot_product = sum(a * b for a, b in zip(feat1, feat2))\<close>: \<open>zip\<close> stops at the shorter
  list. \<open>norm = sum(a * a for a in feat) ** 0.5\<close>: the square root of a sum of squares.
\<close>

definition dot_product :: "real list \<Rightarrow> real list \<Rightarrow> real" where
  "dot_product feat1 feat2 = sum_list (map (\<lambda>(a, b). a * b) (zip feat1 feat2))"

definition norm_of :: "real list \<Rightarrow> real" where
  "norm_of feat = sqrt (sum_list (map (\<lambda>a. a * a) feat))"

text \<open>Python's \<open>/\<close> raises \<open>ZeroDivisionError\<close> on a zero divisor.\<close>

definition py_truediv :: "real \<Rightarrow> real \<Rightarrow> error + real" where
  "py_truediv x y = (if y = 0 then Inl ZeroDivisionError else Inr (x / y))"

definition cosine_similarity :: "real list \<Rightarrow> real list \<Rightarrow> error + real" where
  "cosine_similarity feat1 feat2 =
     (let dot = dot_product feat1 feat2;
          norm_a = norm_of feat1;
          norm_b = norm_of feat2
      in if norm_a = 0 \<or> norm_b = 0 then Inr 0
         else py_truediv dot (norm_a * norm_b))"

text \<open>
  \<open>user_data["features"]\<close> raises \<open>KeyError\<close> when the record has no such field. The value
  is then iterated and its elements multiplied: an integer is not iterable, the characters
  of a string cannot be multiplied by themselves, and the empty string iterates as the
  empty list does.
\<close>

definition dict_getitem :: "(string \<times> 'v) list \<Rightarrow> string \<Rightarrow> error + 'v" where
  "dict_getitem d k = (case map_of d k of None \<Rightarrow> Inl KeyError | Some v \<Rightarrow> Inr v)"

fun as_floats :: "pyval \<Rightarrow> error + real list" where
  "as_floats (PFloats f) = Inr f"
| "as_floats (PStr str) = (if str = [] then Inr [] else Inl TypeError)"
| "as_floats (PInt i) = Inl TypeError"

definition record_similarity :: "real list \<Rightarrow> user_data \<Rightarrow> error + real" where
  "record_similarity features user_data =
     (case dict_getitem user_data ''features'' of
        Inl e \<Rightarrow> Inl e
      | Inr v \<Rightarrow> (case as_floats v of
                   Inl e \<Rightarrow> Inl e
                 | Inr f \<Rightarrow> cosine_similarity features f))"

text \<open>
  The loop of \<open>find_user_by_features\<close> over \<open>self.users.items()\<close>, with its two variables
  \<open>best_match\<close> and \<open>highest_similarity\<close>.
\<close>

fun find_loop :: "real list \<Rightarrow> user_dict \<Rightarrow> string option \<Rightarrow> real \<Rightarrow> error + string option" where
  "find_loop features [] best_match highest_similarity = Inr best_match"
| "find_loop features ((user_id, user_data) # rest) best_match highest_similarity =
     (case record_similarity features user_data of
        Inl e \<Rightarrow> Inl e
      | Inr similarity \<Rightarrow>
          if similarity > highest_similarity
          then find_loop features rest (Some user_id) similarity
          else find_loop features rest best_match highest_similarity)"

text \<open>
  \<open>find_user_by_features features threshold\<close>: \<open>features\<close> is what \<open>extract_features\<close>
  returned, \<open>None\<close> or a list; \<open>not features\<close> holds of \<open>None\<close> and of the empty list.
\<close>

definition find_user_by_features :: "real list option \<Rightarrow> real \<Rightarrow> app_state \<Rightarrow> error + string option" where
  "find_user_by_features features threshold s =
     (case features of
        None \<Rightarrow> Inr None
      | Some f \<Rightarrow> if f = [] then Inr None else find_loop f (users s) None threshold)"

section \<open>Configuration and the inputs of a run\<close>

text \<open>
  The class \<open>Config\<close>. \<open>LIVENESS_TIMEOUT\<close> is changed at run time by the settings menu
  (to 0 and back to 5000), so the functions take the configuration as an argument.
\<close>

record config =
  MIN_FACE_SIZE :: int
  REGISTRATION_SAMPLES :: int
  SIMILARITY_THRESHOLD :: real
  LIVENESS_TIMEOUT :: int

definition Config :: config where
  "Config = \<lparr>MIN_FACE_SIZE = 80, REGISTRATION_SAMPLES = 5, SIMILARITY_THRESHOLD = 1 / 2,
             LIVENESS_TIMEOUT = 5000\<rparr>"

text \<open>A face rectangle \<open>(x, y, w, h)\<close>, as \<open>find_features\<close> returns it.\<close>

type_synonym rect = "int \<times> int \<times> int \<times> int"

definition rect_w :: "rect \<Rightarrow> int" where
  "rect_w f = (case f of (x, y, w, h) \<Rightarrow> w)"

definition rect_h :: "rect \<Rightarrow> int" where
  "rect_h f = (case f of (x, y, w, h) \<Rightarrow> h)"

text \<open>
  What one pass of the capture loop reads from the camera, the detector and the buttons:
  the faces detected, what \<open>is_pressed\<close> of the up button returns, what
  \<open>extract_features\<close> returns for the chosen face, what \<open>is_pressed\<close> of the back
  button returns. A run of the loop is given the list of these readings; a loop that is
  still running when the list ends has no result.
\<close>

record capture_tick =
  cap_faces :: "rect list"
  cap_up :: bool
  cap_features :: "real list option"
  cap_back :: bool

text \<open>
  What one pass of the liveness loop reads: \<open>time.ticks_diff(time.ticks_ms(), start_time)\<close>
  at the test of the loop, the faces detected, the eyes found in the first face, the back
  button.
\<close>

record live_tick =
  live_elapsed :: int
  live_faces :: "rect list"
  live_eyes :: "rect list"
  live_back :: bool

section \<open>Enrolment\<close>

subsection \<open>Collecting samples\<close>

text \<open>\<open>max(faces, key=lambda f: f[2] * f[3])\<close>: the first face of the largest area.\<close>

fun max_face :: "rect \<Rightarrow> rect list \<Rightarrow> rect" where
  "max_face best [] = best"
| "max_face best (f # fs) =
     (if rect_w f * rect_h f > rect_w best * rect_h best then max_face f fs else max_face best fs)"

text \<open>
  The body of the capture loop up to the test of the back button. \<open>None\<close> is the
  \<open>continue\<close> of a face that is too small, which skips that test.
\<close>

definition capture_step :: "config \<Rightarrow> capture_tick \<Rightarrow> real list list \<Rightarrow> real list list option" where
  "capture_step cfg t samples =
     (case cap_faces t of
        [] \<Rightarrow> Some samples
      | f # fs \<Rightarrow>
          (let face = max_face f fs in
           if cap_up t then
             (if rect_w face < MIN_FACE_SIZE cfg \<or> rect_h face < MIN_FACE_SIZE cfg then None
              else (case cap_features t of
                      None \<Rightarrow> Some samples
                    | Some features \<Rightarrow>
                        if features \<noteq> [] then Some (samples @ [features]) else Some samples))
           else Some samples))"

fun collect_samples :: "config \<Rightarrow> capture_tick list \<Rightarrow> real list list \<Rightarrow> real list list option" where
  "collect_samples cfg [] samples =
     (if int (length samples) < REGISTRATION_SAMPLES cfg then None else Some samples)"
| "collect_samples cfg (t # ts) samples =
     (if int (length samples) < REGISTRATION_SAMPLES cfg then
        (case capture_step cfg t samples of
           None \<Rightarrow> collect_samples cfg ts samples
         | Some samples' \<Rightarrow>
             if cap_back t \<and> samples' \<noteq> [] then Some samples'
             else collect_samples cfg ts samples')
      else Some samples)"

subsection \<open>Liveness detection\<close>

text \<open>
  The loop of \<open>_liveness_detection\<close>. Its result is the pair
  \<open>(eyes_detected, eyes_closed)\<close> at the exit of the loop.
\<close>

fun liveness_loop :: "config \<Rightarrow> live_tick list \<Rightarrow> bool \<Rightarrow> (bool \<times> bool) option" where
  "liveness_loop cfg [] eyes_detected = None"
| "liveness_loop cfg (t # ts) eyes_detected =
     (if live_elapsed t < LIVENESS_TIMEOUT cfg then
        (if live_faces t \<noteq> [] then
           (if live_eyes t \<noteq> [] \<and> \<not> eyes_detected then
              (if live_back t then Some (True, False) else liveness_loop cfg ts True)
            else if eyes_detected \<and> live_eyes t = [] then Some (eyes_detected, True)
            else (if live_back t then Some (eyes_detected, False)
                  else liveness_loop cfg ts eyes_detected))
         else (if live_back t then Some (eyes_detected, False)
               else liveness_loop cfg ts eyes_detected))
      else Some (eyes_detected, False))"

definition liveness_detection :: "config \<Rightarrow> live_tick list \<Rightarrow> bool option" where
  "liveness_detection cfg ticks =
     (case liveness_loop cfg ticks False of
        None \<Rightarrow> None
      | Some (eyes_detected, eyes_closed) \<Rightarrow> Some (eyes_detected \<and> eyes_closed))"

subsection \<open>Averaging the samples\<close>

text \<open>
  \<open>[sum(f[i] for f in samples) / len(samples) for i in range(len(samples[0]))]\<close>. An index
  past the end of a list raises \<open>IndexError\<close>.
\<close>

definition list_getitem :: "'a list \<Rightarrow> nat \<Rightarrow> error + 'a" where
  "list_getitem xs i = (if i < length xs then Inr (xs ! i) else Inl IndexError)"

fun column_sum :: "real list list \<Rightarrow> nat \<Rightarrow> real \<Rightarrow> error + real" where
  "column_sum [] i acc = Inr acc"
| "column_sum (f # fs) i acc =
     (case list_getitem f i of
        Inl e \<Rightarrow> Inl e
      | Inr x \<Rightarrow> column_sum fs i (acc + x))"

fun avg_columns :: "real list list \<Rightarrow> nat list \<Rightarrow> error + real list" where
  "avg_columns samples [] = Inr []"
| "avg_columns samples (i # rest) =
     (case column_sum samples i 0 of
        Inl e \<Rightarrow> Inl e
      | Inr column_total \<Rightarrow>
          (case py_truediv column_total (real (length samples)) of
             Inl e \<Rightarrow> Inl e
           | Inr q \<Rightarrow>
               (case avg_columns samples rest of
                  Inl e \<Rightarrow> Inl e
                | Inr qs \<Rightarrow> Inr (q # qs))))"

definition avg_features :: "real list list \<Rightarrow> error + real list" where
  "avg_features samples =
     (case samples of
        [] \<Rightarrow> Inl IndexError
      | first # others \<Rightarrow> avg_columns samples [0..<length first])"

subsection \<open>\<open>_registration_mode\<close>\<close>

text \<open>The message a run ends on.\<close>

datatype message =
    RegistrationCancelled
  | NoValidSamples
  | LivenessFailed
  | Registered
  | RegistrationFailed
  | UserNotFound
  | FeaturesUpdated
  | SaveFailed

text \<open>
  The inputs of a run of \<open>_registration_mode\<close>: the name the input method returns (empty
  when cancelled), the readings of the two loops, and the clock, the local time and the
  outcome of the write at \<open>add_user\<close>.
\<close>

record registration_input =
  reg_name :: string
  reg_capture :: "capture_tick list"
  reg_liveness :: "live_tick list"
  reg_ticks_ms :: int
  reg_localtime :: string
  reg_write_ok :: bool

text \<open>
  The result is \<open>None\<close> when one of the loops does not end on its readings, an error when
  the run raises, and the last message with the state otherwise.
\<close>

definition registration_mode ::
  "config \<Rightarrow> registration_input \<Rightarrow> app_state \<Rightarrow> (error + message \<times> app_state) option" where
  "registration_mode cfg inp s =
     (if reg_name inp = [] then Some (Inr (RegistrationCancelled, s))
      else
        (case collect_samples cfg (reg_capture inp) [] of
           None \<Rightarrow> None
         | Some samples \<Rightarrow>
             if samples = [] then Some (Inr (NoValidSamples, s))
             else
               (case liveness_detection cfg (reg_liveness inp) of
                  None \<Rightarrow> None
                | Some alive \<Rightarrow>
                    if \<not> alive then Some (Inr (LivenessFailed, s))
                    else
                      (case avg_features samples of
                         Inl e \<Rightarrow> Some (Inl e)
                       | Inr avg \<Rightarrow>
                           (let ((success, user_id), s') =
                                  add_user (reg_name inp) avg (reg_ticks_ms inp)
                                    (reg_localtime inp) (reg_write_ok inp) s
                            in Some (Inr (if success then Registered else RegistrationFailed, s')))))))"

subsection \<open>\<open>_recollect_user_features\<close>\<close>

text \<open>
  Re-enrolment of the user \<open>user_id\<close>. \<open>user\<close> is the record in the store itself, so the two
  assignments to its fields change the store.
\<close>

definition recollect_user_features ::
  "config \<Rightarrow> string \<Rightarrow> capture_tick list \<Rightarrow> bool \<Rightarrow> app_state \<Rightarrow> (error + message \<times> app_state) option" where
  "recollect_user_features cfg user_id ticks ok s =
     (case get_user s user_id of
        None \<Rightarrow> Some (Inr (UserNotFound, s))
      | Some user \<Rightarrow>
          if user = [] then Some (Inr (UserNotFound, s))
          else
            (case dict_getitem user ''name'' of
               Inl e \<Rightarrow> Some (Inl e)
             | Inr name \<Rightarrow>
                 (case collect_samples cfg ticks [] of
                    None \<Rightarrow> None
                  | Some samples \<Rightarrow>
                      if samples = [] then Some (Inr (NoValidSamples, s))
                      else
                        (case avg_features samples of
                           Inl e \<Rightarrow> Some (Inl e)
                         | Inr avg \<Rightarrow>
                             (let user' = AList.update ''samples_count'' (PInt (int (length samples)))
                                            (AList.update ''features'' (PFloats avg) user);
                                  (saved, s') = save_db ok (s\<lparr>users := AList.update user_id user' (users s)\<rparr>)
                              in Some (Inr (if saved then FeaturesUpdated else SaveFailed, s')))))))"

section \<open>The earlier drafts\<close>

text \<open>
  \<open>UserDatabase.add\<close> of the second draft: the same as \<open>add_user\<close> but for the names of
  two fields.
\<close>

definition new_user_record_v2 :: "string \<Rightarrow> real list \<Rightarrow> string \<Rightarrow> user_data" where
  "new_user_record_v2 name descriptor localtime =
     [(''name'', PStr name),
      (''descriptor'', PFloats descriptor),
      (''registration_time'', PStr localtime),
      (''samples_count'', PInt 1)]"

definition UserDatabase_add ::
  "string \<Rightarrow> real list \<Rightarrow> int \<Rightarrow> string \<Rightarrow> bool \<Rightarrow> app_state \<Rightarrow> (bool \<times> string) \<times> app_state" where
  "UserDatabase_add name descriptor ticks_ms localtime ok s =
     (let user_id = py_str ticks_ms;
          s1 = s\<lparr>users := AList.update user_id (new_user_record_v2 name descriptor localtime) (users s)\<rparr>;
          (saved, s2) = save_db ok s1
      in ((saved, user_id), s2))"

text \<open>
  The end of \<open>registration_mode\<close> of the first draft, from the generation of the id: the
  record counts the samples, and a failed write deletes the new record from the dict.
\<close>

definition register_commit_v1 ::
  "string \<Rightarrow> real list list \<Rightarrow> real list \<Rightarrow> int \<Rightarrow> string \<Rightarrow> bool \<Rightarrow> app_state \<Rightarrow> bool \<times> app_state" where
  "register_commit_v1 name samples avg_descriptor ticks_ms localtime ok s =
     (let user_id = py_str ticks_ms;
          user_db = AList.update user_id
                      [(''name'', PStr name),
                       (''descriptor'', PFloats avg_descriptor),
                       (''registration_time'', PStr localtime),
                       (''samples_count'', PInt (int (length samples)))]
                      (users s);
          log = saves s @ [(user_db, ok)]
      in if ok then (True, \<lparr>users = user_db, saves = log\<rparr>)
         else (False, \<lparr>users = (if user_id \<in> fst ` set user_db then AList.delete user_id user_db else user_db),
                       saves = log\<rparr>))"

section \<open>Persistence\<close>

text \<open>
  \<open>save_db\<close> hands \<open>self.users\<close> to \<open>json.dump\<close> and \<open>_load_db\<close> returns what
  \<open>json.load\<close> reads, or the empty dict when the file cannot be opened or parsed. The two
  functions of the \<open>json\<close> module are parameters here: \<open>json_dump\<close> gives the content
  written for a dict, \<open>json_load\<close> gives the dict parsed from a content, or \<open>None\<close> when
  it raises.

  \<open>file_after_save\<close> is the content of the file after the calls of \<open>save_db\<close> in the log,
  when the last of them succeeded; after a failed write, or with no write, the content is
  not known.
\<close>

definition file_after_save :: "(user_dict \<Rightarrow> 'f) \<Rightarrow> app_state \<Rightarrow> 'f option" where
  "file_after_save json_dump s =
     (case rev (saves s) of
        [] \<Rightarrow> None
      | (written, ok) # earlier \<Rightarrow> if ok then Some (json_dump written) else None)"

definition load_db :: "('f \<Rightarrow> user_dict option) \<Rightarrow> 'f option \<Rightarrow> user_dict" where
  "load_db json_load file =
     (case file of
        None \<Rightarrow> []
      | Some content \<Rightarrow>
          (case json_load content of
             None \<Rightarrow> []
           | Some loaded \<Rightarrow> loaded))"

text \<open>The Python type of a field value.\<close>

datatype pytype = TStr | TInt | TFloatList

fun type_of :: "pyval \<Rightarrow> pytype" where
  "type_of (PStr str) = TStr"
| "type_of (PInt i) = TInt"
| "type_of (PFloats f) = TFloatList"

text \<open>
  An instance of the two parameters: the file content as a JSON value, with the mapping of
  the \<open>json\<close> module between Python values and JSON values. A dict is an object, a string
  a string, a list an array, an \<open>int\<close> a number without a fraction and a \<open>float\<close> a number
  with one; read back, a number without a fraction in a list of numbers is taken with the
  others.
\<close>

datatype json =
    JString string
  | JInt int
  | JReal real
  | JArray "json list"
  | JObject "(string \<times> json) list"

fun pyval_to_json :: "pyval \<Rightarrow> json" where
  "pyval_to_json (PStr str) = JString str"
| "pyval_to_json (PInt i) = JInt i"
| "pyval_to_json (PFloats f) = JArray (map JReal f)"

definition record_to_json :: "user_data \<Rightarrow> json" where
  "record_to_json user_data = JObject (map (\<lambda>(k, v). (k, pyval_to_json v)) user_data)"

definition dump_users :: "user_dict \<Rightarrow> json" where
  "dump_users u = JObject (map (\<lambda>(user_id, user_data). (user_id, record_to_json user_data)) u)"

fun json_number :: "json \<Rightarrow> real option" where
  "json_number (JReal r) = Some r"
| "json_number (JInt i) = Some (of_int i)"
| "json_number j = None"

fun json_to_pyval :: "json \<Rightarrow> pyval option" where
  "json_to_pyval (JString str) = Some (PStr str)"
| "json_to_pyval (JInt i) = Some (PInt i)"
| "json_to_pyval (JArray js) = map_option PFloats (those (map json_number js))"
| "json_to_pyval j = None"

fun json_to_record :: "json \<Rightarrow> user_data option" where
  "json_to_record (JObject members) =
     those (map (\<lambda>(k, j). map_option (Pair k) (json_to_pyval j)) members)"
| "json_to_record j = None"

fun load_users :: "json \<Rightarrow> user_dict option" where
  "load_users (JObject entries) =
     those (map (\<lambda>(user_id, j). map_option (Pair user_id) (json_to_record j)) entries)"
| "load_users j = None"

section \<open>Example runs\<close>

text \<open>
  The inputs of the example runs: a capture pass that sees one face of 100 by 100 with the
  up button pressed and the descriptor \<open>[1, 0, 0]\<close> extracted; liveness readings with the
  eyes seen and then gone 100 ms later; and readings where the eyes are gone only when
  5000 ms have passed.
\<close>

definition empty_store :: app_state where
  "empty_store = \<lparr>users = [], saves = []\<rparr>"

definition sample_tick :: "bool \<Rightarrow> capture_tick" where
  "sample_tick back =
     \<lparr>cap_faces = [(0, 0, 100, 100)], cap_up = True, cap_features = Some [1, 0, 0],
      cap_back = back\<rparr>"

definition blink_ticks :: "live_tick list" where
  "blink_ticks =
     [\<lparr>live_elapsed = 0, live_faces = [(0, 0, 100, 100)], live_eyes = [(20, 30, 15, 10)],
       live_back = False\<rparr>,
      \<lparr>live_elapsed = 100, live_faces = [(0, 0, 100, 100)], live_eyes = [],
       live_back = False\<rparr>]"

definition timeout_ticks :: "live_tick list" where
  "timeout_ticks =
     [\<lparr>live_elapsed = 0, live_faces = [(0, 0, 100, 100)], live_eyes = [(20, 30, 15, 10)],
       live_back = False\<rparr>,
      \<lparr>live_elapsed = 5000, live_faces = [(0, 0, 100, 100)], live_eyes = [],
       live_back = False\<rparr>]"

definition ada_run :: "live_tick list \<Rightarrow> bool \<Rightarrow> registration_input" where
  "ada_run live ok =
     \<lparr>reg_name = ''Ada'',
      reg_capture = [sample_tick False, sample_tick False, sample_tick True],
      reg_liveness = live,
      reg_ticks_ms = 1000,
      reg_localtime = ''(2024, 1, 1)'',
      reg_write_ok = ok\<rparr>"

section \<open>Evaluation of \<open>str\<close>\<close>

lemma py_str_1000: "py_str 1000 = ''1000''"
  by (simp add: py_str_def str_nat.simps digit_char_def)

lemma py_str_30000: "py_str 30000 = ''30000''"
  by (simp add: py_str_def str_nat.simps digit_char_def)

section \<open>Adding a user when the write fails\<close>

text \<open>
  C1. The claim: when the write of \<open>add_user\<close> fails, the insertion is reverted, so that the
  new id is not a key of the store afterwards. \<open>add_user\<close> does not revert: on the empty
  store, with the clock at 1000 and a failing write, it returns \<open>(False, ''1000'')\<close> and the
  store still holds the record under \<open>''1000''\<close>.
\<close>

theorem add_user_failed_write_keeps_record:
  "add_user ''Ada'' [1, 0, 0] 1000 ''(2024, 1, 1)'' False \<lparr>users = [], saves = []\<rparr> =
     ((False, ''1000''),
      \<lparr>users = [(''1000'', new_user_record ''Ada'' [1, 0, 0] ''(2024, 1, 1)'')],
       saves = [([(''1000'', new_user_record ''Ada'' [1, 0, 0] ''(2024, 1, 1)'')], False)]\<rparr>)
   \<and> get_user (snd (add_user ''Ada'' [1, 0, 0] 1000 ''(2024, 1, 1)'' False \<lparr>users = [], saves = []\<rparr>)) ''1000''
       = Some (new_user_record ''Ada'' [1, 0, 0] ''(2024, 1, 1)'')"
  by (simp add: add_user_def save_db_def get_user_def py_str_1000 Let_def)

section \<open>Cosine similarity\<close>

lemma dot_product_commute: "dot_product a b = dot_product b a"
  unfolding dot_product_def by (subst zip_commute) (simp add: o_def split_def mult.commute)

lemma sum_squares_nonneg: "0 \<le> sum_list (map (\<lambda>a. a * a) (xs :: real list))"
  by (induction xs) auto

lemma two_dim_cauchy:
  fixes p q r s :: real
  assumes "0 \<le> p" "0 \<le> q" "0 \<le> r" "0 \<le> s"
  shows "p * q + r * s \<le> sqrt (p\<^sup>2 + r\<^sup>2) * sqrt (q\<^sup>2 + s\<^sup>2)"
proof -
  have "(p * q + r * s)\<^sup>2 + (p * s - r * q)\<^sup>2 = (p\<^sup>2 + r\<^sup>2) * (q\<^sup>2 + s\<^sup>2)"
    by (simp add: power2_eq_square algebra_simps)
  then have "(p * q + r * s)\<^sup>2 \<le> (p\<^sup>2 + r\<^sup>2) * (q\<^sup>2 + s\<^sup>2)"
    by (smt (verit) zero_le_power2)
  then have "sqrt ((p * q + r * s)\<^sup>2) \<le> sqrt ((p\<^sup>2 + r\<^sup>2) * (q\<^sup>2 + s\<^sup>2))"
    by (simp only: real_sqrt_le_iff)
  moreover have "0 \<le> p * q + r * s" using assms by simp
  ultimately show ?thesis by (simp add: real_sqrt_mult)
qed

lemma abs_dot_le_norms: "\<bar>dot_product a b\<bar> \<le> norm_of a * norm_of b"
proof (induction a arbitrary: b)
  case Nil
  show ?case by (simp add: dot_product_def norm_of_def)
next
  case (Cons x xs)
  show ?case
  proof (cases b)
    case Nil
    then show ?thesis by (simp add: dot_product_def norm_of_def sum_squares_nonneg)
  next
    case (Cons y ys)
    let ?A = "sum_list (map (\<lambda>a. a * a) xs)" and ?B = "sum_list (map (\<lambda>a. a * a) ys)"
    have A: "0 \<le> ?A" and B: "0 \<le> ?B" by (rule sum_squares_nonneg)+
    have ih: "\<bar>dot_product xs ys\<bar> \<le> sqrt ?A * sqrt ?B"
      using Cons.IH [of ys] by (simp add: norm_of_def)
    have "\<bar>dot_product (x # xs) b\<bar> = \<bar>x * y + dot_product xs ys\<bar>"
      using Cons by (simp add: dot_product_def)
    also have "\<dots> \<le> \<bar>x\<bar> * \<bar>y\<bar> + \<bar>dot_product xs ys\<bar>"
      by (metis abs_mult abs_triangle_ineq)
    also have "\<dots> \<le> \<bar>x\<bar> * \<bar>y\<bar> + sqrt ?A * sqrt ?B"
      using ih by simp
    also have "\<dots> \<le> sqrt (\<bar>x\<bar>\<^sup>2 + (sqrt ?A)\<^sup>2) * sqrt (\<bar>y\<bar>\<^sup>2 + (sqrt ?B)\<^sup>2)"
      by (rule two_dim_cauchy) (simp_all add: A B)
    also have "\<dots> = norm_of (x # xs) * norm_of b"
      using Cons A B by (simp add: norm_of_def power2_eq_square)
    finally show ?thesis .
  qed
qed


lemma norm_of_nonneg: "0 \<le> norm_of a"
  by (simp add: norm_of_def sum_squares_nonneg)

lemma norm_of_zero_iff: "norm_of a = 0 \<longleftrightarrow> list_all (\<lambda>x. x = 0) a"
proof (induction a)
  case Nil
  show ?case by (simp add: norm_of_def)
next
  case (Cons x xs)
  have "0 \<le> sum_list (map (\<lambda>a. a * a) xs)" by (rule sum_squares_nonneg)
  moreover have "0 \<le> x * x" by simp
  ultimately have "x * x + sum_list (map (\<lambda>a. a * a) xs) = 0 \<longleftrightarrow>
      x = 0 \<and> sum_list (map (\<lambda>a. a * a) xs) = 0"
    by (smt (verit) mult_eq_0_iff)
  with Cons show ?case by (simp add: norm_of_def)
qed

text \<open>
  In exact arithmetic, with the components as real numbers: for all vectors \<open>a\<close> and
  \<open>b\<close>, of equal length or not, \<open>cosine_similarity\<close> raises nothing, its value is the same
  with the arguments exchanged, lies between -1 and 1, and is 0 when either norm is 0. By
  \<open>norm_of_zero_iff\<close> the norm is 0 exactly when every component is 0. The program computes
  in floating point, where rounding can carry the quotient past 1; that arithmetic is not
  modelled here, and the bound below says nothing about it.
\<close>

lemma cosine_similarity_exact_arithmetic:
  "\<exists>r. cosine_similarity a b = Inr r \<and> cosine_similarity b a = Inr r \<and> - 1 \<le> r \<and> r \<le> 1 \<and>
       (norm_of a = 0 \<or> norm_of b = 0 \<longrightarrow> r = 0)"
proof (cases "norm_of a = 0 \<or> norm_of b = 0")
  case True
  then show ?thesis by (auto simp: cosine_similarity_def)
next
  case False
  then have pos: "0 < norm_of a * norm_of b"
    using norm_of_nonneg [of a] norm_of_nonneg [of b] by (simp add: less_le)
  let ?r = "dot_product a b / (norm_of a * norm_of b)"
  have ab: "cosine_similarity a b = Inr ?r"
    using False by (simp add: cosine_similarity_def py_truediv_def)
  have ba: "cosine_similarity b a = Inr ?r"
    using False by (simp add: cosine_similarity_def py_truediv_def dot_product_commute [of b a] mult.commute)
  have "\<bar>?r\<bar> \<le> 1"
    using abs_dot_le_norms [of a b] pos by simp
  then have "- 1 \<le> ?r \<and> ?r \<le> 1" by linarith
  with ab ba False show ?thesis by simp
qed

lemma cosine_similarity_zero_vector:
  "cosine_similarity [0, 0] [3, 4] = Inr 0 \<and> cosine_similarity [3, 4] [0, 0] = Inr 0"
  using cosine_similarity_exact_arithmetic [of "[0, 0]" "[3, 4]"]
  by (auto simp: norm_of_def)

section \<open>The matcher\<close>

lemma cosine_unit: "cosine_similarity [1, 0, 0] [1, 0, 0] = Inr 1"
  by (simp add: cosine_similarity_def dot_product_def norm_of_def py_truediv_def)

lemma cosine_orth: "cosine_similarity [0, 1, 0] [1, 0, 0] = Inr 0"
  by (simp add: cosine_similarity_def dot_product_def norm_of_def py_truediv_def)

lemma find_loop_result:
  "find_loop f us best hi = Inr (Some uid) \<Longrightarrow>
     (best = Some uid \<and> (\<forall>(k, d) \<in> set us. \<forall>sim. record_similarity f d = Inr sim \<longrightarrow> sim \<le> hi))
     \<or> (\<exists>d sim. (uid, d) \<in> set us \<and> record_similarity f d = Inr sim \<and> hi < sim \<and>
           (\<forall>(k', d') \<in> set us. \<forall>sim'. record_similarity f d' = Inr sim' \<longrightarrow> sim' \<le> sim))"
proof (induction us arbitrary: best hi)
  case Nil
  then show ?case by simp
next
  case (Cons p rest)
  obtain k d where p: "p = (k, d)" by (cases p)
  from Cons.prems p obtain s where s: "record_similarity f d = Inr s"
    by (cases "record_similarity f d") auto
  show ?case
  proof (cases "s > hi")
    case True
    with Cons.prems p s have "find_loop f rest (Some k) s = Inr (Some uid)" by simp
    from Cons.IH [OF this] show ?thesis
    proof
      assume "Some k = Some uid \<and> (\<forall>(k, d) \<in> set rest. \<forall>sim. record_similarity f d = Inr sim \<longrightarrow> sim \<le> s)"
      with True p s have "(uid, d) \<in> set (p # rest) \<and> record_similarity f d = Inr s \<and> hi < s \<and>
           (\<forall>(k', d') \<in> set (p # rest). \<forall>sim'. record_similarity f d' = Inr sim' \<longrightarrow> sim' \<le> s)"
        by auto
      then show ?thesis by blast
    next
      assume "\<exists>d sim. (uid, d) \<in> set rest \<and> record_similarity f d = Inr sim \<and> s < sim \<and>
           (\<forall>(k', d') \<in> set rest. \<forall>sim'. record_similarity f d' = Inr sim' \<longrightarrow> sim' \<le> sim)"
      then obtain d2 sim2 where "(uid, d2) \<in> set rest" "record_similarity f d2 = Inr sim2" "s < sim2"
         "\<forall>(k', d') \<in> set rest. \<forall>sim'. record_similarity f d' = Inr sim' \<longrightarrow> sim' \<le> sim2"
        by blast
      with True p s have "(uid, d2) \<in> set (p # rest) \<and> record_similarity f d2 = Inr sim2 \<and> hi < sim2 \<and>
           (\<forall>(k', d') \<in> set (p # rest). \<forall>sim'. record_similarity f d' = Inr sim' \<longrightarrow> sim' \<le> sim2)"
        by auto
      then show ?thesis by blast
    qed
  next
    case False
    with Cons.prems p s have "find_loop f rest best hi = Inr (Some uid)" by simp
    from Cons.IH [OF this] show ?thesis
    proof
      assume "best = Some uid \<and> (\<forall>(k, d) \<in> set rest. \<forall>sim. record_similarity f d = Inr sim \<longrightarrow> sim \<le> hi)"
      with False p s show ?thesis by auto
    next
      assume "\<exists>d sim. (uid, d) \<in> set rest \<and> record_similarity f d = Inr sim \<and> hi < sim \<and>
           (\<forall>(k', d') \<in> set rest. \<forall>sim'. record_similarity f d' = Inr sim' \<longrightarrow> sim' \<le> sim)"
      then obtain d2 sim2 where "(uid, d2) \<in> set rest" "record_similarity f d2 = Inr sim2" "hi < sim2"
         "\<forall>(k', d') \<in> set rest. \<forall>sim'. record_similarity f d' = Inr sim' \<longrightarrow> sim' \<le> sim2"
        by blast
      with False p s have "(uid, d2) \<in> set (p # rest) \<and> record_similarity f d2 = Inr sim2 \<and> hi < sim2 \<and>
           (\<forall>(k', d') \<in> set (p # rest). \<forall>sim'. record_similarity f d' = Inr sim' \<longrightarrow> sim' \<le> sim2)"
        by auto
      then show ?thesis by blast
    qed
  qed
qed

text \<open>
  C3. When \<open>find_user_by_features\<close> returns an id, the record stored under that id has a
  similarity to the probe strictly above the threshold, and no record of the store has a
  greater one: a similarity equal to the threshold does not match. The keys of a dict are
  distinct.
\<close>

theorem find_user_by_features_above_threshold:
  assumes "find_user_by_features features threshold s = Inr (Some user_id)"
    and "distinct (map fst (users s))"
  shows "\<exists>f user_data sim. features = Some f \<and> get_user s user_id = Some user_data \<and>
           record_similarity f user_data = Inr sim \<and> threshold < sim \<and>
           (\<forall>(k, d) \<in> set (users s). \<forall>sim'. record_similarity f d = Inr sim' \<longrightarrow> sim' \<le> sim)"
proof -
  from assms(1) obtain f where f: "features = Some f" "f \<noteq> []"
      "find_loop f (users s) None threshold = Inr (Some user_id)"
    by (auto simp: find_user_by_features_def split: option.splits if_splits)
  from find_loop_result [OF f(3)] obtain d sim where
      d: "(user_id, d) \<in> set (users s)" "record_similarity f d = Inr sim" "threshold < sim"
         "\<forall>(k', d') \<in> set (users s). \<forall>sim'. record_similarity f d' = Inr sim' \<longrightarrow> sim' \<le> sim"
    by auto
  from d(1) assms(2) have "get_user s user_id = Some d"
    by (simp add: get_user_def)
  with f(1) d show ?thesis by blast
qed

theorem find_user_by_features_above_threshold_witness:
  "find_user_by_features (Some [1, 0, 0]) (1 / 2)
      \<lparr>users = [(''1000'', new_user_record ''Ada'' [1, 0, 0] ''(2024, 1, 1)'')], saves = []\<rparr>
     = Inr (Some ''1000'')
   \<and> distinct (map fst (users \<lparr>users = [(''1000'', new_user_record ''Ada'' [1, 0, 0] ''(2024, 1, 1)'')], saves = []\<rparr>))
   \<and> (\<exists>f user_data sim. Some [1, 0, 0] = Some f
        \<and> get_user \<lparr>users = [(''1000'', new_user_record ''Ada'' [1, 0, 0] ''(2024, 1, 1)'')], saves = []\<rparr> ''1000''
            = Some user_data
        \<and> record_similarity f user_data = Inr sim \<and> 1 / 2 < sim)"
proof -
  let ?s = "\<lparr>users = [(''1000'', new_user_record ''Ada'' [1, 0, 0] ''(2024, 1, 1)'')], saves = []\<rparr>"
  have sim: "record_similarity [1, 0, 0] (new_user_record ''Ada'' [1, 0, 0] ''(2024, 1, 1)'') = Inr 1"
    by (simp add: record_similarity_def dict_getitem_def new_user_record_def cosine_unit)
  have found: "find_user_by_features (Some [1, 0, 0]) (1 / 2) ?s = Inr (Some ''1000'')"
    by (simp add: find_user_by_features_def sim)
  have keys: "distinct (map fst (users ?s))" by simp
  from find_user_by_features_above_threshold [OF found keys] found keys
  show ?thesis by blast
qed

text \<open>
  The boundary: a store all of whose similarities are at most the threshold gives no match.
\<close>

lemma find_loop_keeps:
  "\<forall>(k, d) \<in> set us. \<exists>sim. record_similarity f d = Inr sim \<and> sim \<le> hi \<Longrightarrow>
   find_loop f us best hi = Inr best"
  by (induction us) auto

lemma find_loop_first_max:
  assumes "\<forall>(k, d) \<in> set pre. \<exists>sim. record_similarity f d = Inr sim \<and> sim < s"
    and "record_similarity f ud = Inr s"
    and "hi < s"
    and "\<forall>(k, d) \<in> set post. \<exists>sim. record_similarity f d = Inr sim \<and> sim \<le> s"
  shows "find_loop f (pre @ (uid, ud) # post) best hi = Inr (Some uid)"
  using assms(1,3)
proof (induction pre arbitrary: best hi)
  case Nil
  with assms(2,4) show ?case by (simp add: find_loop_keeps)
next
  case (Cons p pre)
  obtain k d where p: "p = (k, d)" by (cases p)
  from Cons.prems(1) p obtain sim where sim: "record_similarity f d = Inr sim" "sim < s" by auto
  from Cons.prems(1) have rest: "\<forall>(k, d) \<in> set pre. \<exists>sim. record_similarity f d = Inr sim \<and> sim < s"
    by simp
  show ?case
    using p sim Cons.IH [OF rest sim(2)] Cons.IH [OF rest Cons.prems(2)] by simp
qed

lemma find_user_by_features_no_match:
  "\<forall>(k, d) \<in> set (users s). \<exists>sim. record_similarity f d = Inr sim \<and> sim \<le> threshold \<Longrightarrow>
   find_user_by_features (Some f) threshold s = Inr None"
  by (simp add: find_user_by_features_def find_loop_keeps)

text \<open>
  C10. When the record under \<open>user_id\<close> has a similarity above the threshold, every record
  before it in the iteration order of the dict has a strictly smaller one and every record
  after it has at most the same, the matcher returns \<open>user_id\<close>: of the records that share
  the maximum, the first. A probe descriptor is a non-empty list.
\<close>

theorem find_user_by_features_first_maximum:
  assumes "features \<noteq> []"
    and "users s = pre @ (user_id, user_data) # post"
    and "record_similarity features user_data = Inr best"
    and "threshold < best"
    and "\<forall>(k, d) \<in> set pre. \<exists>sim. record_similarity features d = Inr sim \<and> sim < best"
    and "\<forall>(k, d) \<in> set post. \<exists>sim. record_similarity features d = Inr sim \<and> sim \<le> best"
  shows "find_user_by_features (Some features) threshold s = Inr (Some user_id)"
  using assms(1,2) find_loop_first_max [OF assms(5) assms(3) assms(4) assms(6)]
  by (simp add: find_user_by_features_def)

theorem find_user_by_features_first_maximum_witness:
  "find_user_by_features (Some [1, 0, 0]) (1 / 2)
      \<lparr>users = [(''500'', new_user_record ''Eve'' [0, 1, 0] ''(2024, 1, 1)''),
                (''1000'', new_user_record ''Ada'' [1, 0, 0] ''(2024, 1, 2)''),
                (''2000'', new_user_record ''Bob'' [1, 0, 0] ''(2024, 1, 3)'')],
       saves = []\<rparr>
     = Inr (Some ''1000'')"
proof -
  have eve: "record_similarity [1, 0, 0] (new_user_record ''Eve'' [0, 1, 0] ''(2024, 1, 1)'') = Inr 0"
    by (simp add: record_similarity_def dict_getitem_def new_user_record_def
        cosine_similarity_def dot_product_def norm_of_def py_truediv_def)
  have ada: "record_similarity [1, 0, 0] (new_user_record ''Ada'' [1, 0, 0] ''(2024, 1, 2)'') = Inr 1"
    by (simp add: record_similarity_def dict_getitem_def new_user_record_def cosine_unit)
  have bob: "record_similarity [1, 0, 0] (new_user_record ''Bob'' [1, 0, 0] ''(2024, 1, 3)'') = Inr 1"
    by (simp add: record_similarity_def dict_getitem_def new_user_record_def cosine_unit)
  show ?thesis
    by (rule find_user_by_features_first_maximum
          [where pre = "[(''500'', new_user_record ''Eve'' [0, 1, 0] ''(2024, 1, 1)'')]"
             and post = "[(''2000'', new_user_record ''Bob'' [1, 0, 0] ''(2024, 1, 3)'')]"
             and user_data = "new_user_record ''Ada'' [1, 0, 0] ''(2024, 1, 2)''"
             and best = 1])
       (simp_all add: eve ada bob)
qed

section \<open>The mean of the samples\<close>

lemma column_sum_ok:
  "\<forall>f \<in> set samples. i < length f \<Longrightarrow>
   column_sum samples i acc = Inr (acc + (\<Sum>f\<leftarrow>samples. f ! i))"
  by (induction samples arbitrary: acc) (simp_all add: list_getitem_def add.assoc)

lemma avg_columns_ok:
  "samples \<noteq> [] \<Longrightarrow> \<forall>i \<in> set cols. \<forall>f \<in> set samples. i < length f \<Longrightarrow>
   avg_columns samples cols =
     Inr (map (\<lambda>i. (\<Sum>f\<leftarrow>samples. f ! i) / real (length samples)) cols)"
  by (induction cols) (simp_all add: column_sum_ok py_truediv_def)

lemma avg_features_mean:
  assumes "samples \<noteq> []" and "\<forall>f \<in> set samples. length f = n"
  shows "avg_features samples =
           Inr (map (\<lambda>i. (\<Sum>f\<leftarrow>samples. f ! i) / real (length samples)) [0..<n])"
proof -
  from assms obtain first others where s: "samples = first # others" and n: "length first = n"
    by (cases samples) auto
  have "avg_columns samples [0..<n] =
          Inr (map (\<lambda>i. (\<Sum>f\<leftarrow>samples. f ! i) / real (length samples)) [0..<n])"
    by (rule avg_columns_ok) (use assms in auto)
  with s n show ?thesis by (simp add: avg_features_def)
qed

section \<open>The example runs, evaluated\<close>

lemma ada_run_fields:
  "reg_name (ada_run live ok) = ''Ada''"
  "reg_capture (ada_run live ok) = [sample_tick False, sample_tick False, sample_tick True]"
  "reg_liveness (ada_run live ok) = live"
  "reg_ticks_ms (ada_run live ok) = 1000"
  "reg_localtime (ada_run live ok) = ''(2024, 1, 1)''"
  "reg_write_ok (ada_run live ok) = ok"
  by (simp_all add: ada_run_def)

lemma collect_three:
  "collect_samples Config [sample_tick False, sample_tick False, sample_tick True] []
     = Some [[1, 0, 0], [1, 0, 0], [1, 0, 0]]"
  by (simp add: Config_def sample_tick_def capture_step_def rect_w_def rect_h_def)

lemma liveness_blink: "liveness_detection Config blink_ticks = Some True"
  by (simp add: liveness_detection_def Config_def blink_ticks_def)

lemma liveness_timeout: "liveness_detection Config timeout_ticks = Some False"
  by (simp add: liveness_detection_def Config_def timeout_ticks_def)

lemma avg_three: "avg_features [[1, 0, 0], [1, 0, 0], [1, 0, 0]] = Inr [1, 0, 0]"
  by (simp add: avg_features_def upt_rec list_getitem_def py_truediv_def numeral_3_eq_3)

section \<open>Enrolment of a new user\<close>

text \<open>Whatever the outcome of the write, \<open>add_user\<close> leaves the new record in the store.\<close>

lemma get_user_add_user:
  "get_user (snd (add_user name features ticks_ms localtime ok s)) (py_str ticks_ms)
     = Some (new_user_record name features localtime)"
  by (simp add: add_user_def save_db_def get_user_def Let_def update_conv')

text \<open>
  C6. A run of \<open>_registration_mode\<close> with a name, whose capture loop ends with the non-empty
  list \<open>samples\<close> of descriptors all of length \<open>n\<close>, whose liveness check passes and whose
  write succeeds, ends on the message of success, and the record stored under the new id
  has as its features the list of length \<open>n\<close> whose component \<open>i\<close> is the sum of the
  components \<open>i\<close> of the samples divided by their number. Components are real numbers here.
\<close>

theorem registration_mode_stores_mean:
  assumes "reg_name inp \<noteq> []"
    and "collect_samples cfg (reg_capture inp) [] = Some samples"
    and "samples \<noteq> []"
    and "\<forall>f \<in> set samples. length f = n"
    and "liveness_detection cfg (reg_liveness inp) = Some True"
    and "reg_write_ok inp"
  shows "\<exists>s' avg. registration_mode cfg inp s = Some (Inr (Registered, s'))
           \<and> get_user s' (py_str (reg_ticks_ms inp))
               = Some (new_user_record (reg_name inp) avg (reg_localtime inp))
           \<and> dict_getitem (new_user_record (reg_name inp) avg (reg_localtime inp)) ''features''
               = Inr (PFloats avg)
           \<and> length avg = n
           \<and> (\<forall>i < n. avg ! i = (\<Sum>f\<leftarrow>samples. f ! i) / real (length samples))"
proof -
  let ?avg = "map (\<lambda>i. (\<Sum>f\<leftarrow>samples. f ! i) / real (length samples)) [0..<n]"
  let ?r = "add_user (reg_name inp) ?avg (reg_ticks_ms inp) (reg_localtime inp) (reg_write_ok inp) s"
  have avg: "avg_features samples = Inr ?avg"
    using assms(3,4) by (rule avg_features_mean)
  have ok: "fst (fst ?r) = True"
    using assms(6) by (simp add: add_user_def save_db_def Let_def)
  have run: "registration_mode cfg inp s = Some (Inr (Registered, snd ?r))"
    using assms(1,2,3,5) avg ok
    by (simp add: registration_mode_def split_beta Let_def)
  have stored: "get_user (snd ?r) (py_str (reg_ticks_ms inp))
       = Some (new_user_record (reg_name inp) ?avg (reg_localtime inp))"
    by (rule get_user_add_user)
  have field: "dict_getitem (new_user_record (reg_name inp) ?avg (reg_localtime inp)) ''features''
       = Inr (PFloats ?avg)"
    by (simp add: dict_getitem_def new_user_record_def)
  have "length ?avg = n \<and> (\<forall>i < n. ?avg ! i = (\<Sum>f\<leftarrow>samples. f ! i) / real (length samples))"
    by simp
  with run stored field show ?thesis by blast
qed

theorem registration_mode_stores_mean_witness:
  "collect_samples Config (reg_capture (ada_run blink_ticks True)) []
     = Some [[1, 0, 0], [1, 0, 0], [1, 0, 0]]
   \<and> liveness_detection Config (reg_liveness (ada_run blink_ticks True)) = Some True
   \<and> (\<exists>s' avg. registration_mode Config (ada_run blink_ticks True) empty_store
                   = Some (Inr (Registered, s'))
         \<and> get_user s' ''1000'' = Some (new_user_record ''Ada'' avg ''(2024, 1, 1)'')
         \<and> length avg = 3 \<and> avg ! 0 = 1 \<and> avg ! 1 = 0 \<and> avg ! 2 = 0)"
proof -
  have name: "reg_name (ada_run blink_ticks True) \<noteq> []"
    by (simp add: ada_run_fields)
  have coll: "collect_samples Config (reg_capture (ada_run blink_ticks True)) []
     = Some [[1, 0, 0], [1, 0, 0], [1, 0, 0]]"
    by (simp only: ada_run_fields collect_three)
  have nonempty: "[[1, 0, 0], [1, 0, 0], [1, 0, 0 :: real]] \<noteq> []" by simp
  have lens: "\<forall>f \<in> set [[1, 0, 0], [1, 0, 0], [1, 0, 0 :: real]]. length f = 3" by simp
  have live: "liveness_detection Config (reg_liveness (ada_run blink_ticks True)) = Some True"
    by (simp only: ada_run_fields liveness_blink)
  have ok: "reg_write_ok (ada_run blink_ticks True)"
    by (simp add: ada_run_fields)
  from registration_mode_stores_mean [OF name coll nonempty lens live ok, of empty_store]
  obtain s' avg where
    r: "registration_mode Config (ada_run blink_ticks True) empty_store = Some (Inr (Registered, s'))"
       "get_user s' (py_str (reg_ticks_ms (ada_run blink_ticks True)))
          = Some (new_user_record (reg_name (ada_run blink_ticks True)) avg
                    (reg_localtime (ada_run blink_ticks True)))"
       "length avg = 3"
       "\<forall>i < 3. avg ! i = (\<Sum>f\<leftarrow>[[1, 0, 0], [1, 0, 0], [1, 0, 0]]. f ! i) / real (length [[1, 0, 0], [1, 0, 0], [1, 0, 0 :: real]])"
    by blast
  from r(4) have "avg ! 0 = 1 \<and> avg ! 1 = 0 \<and> avg ! 2 = 0"
    by simp
  with r(1,2,3) coll live show ?thesis
    by (auto simp: ada_run_fields py_str_1000)
qed

text \<open>
  C2. The claim: an enrolment that commits with N samples stores N as the count of the
  record. \<open>add_user\<close> writes the constant 1: the run that enrols Ada on the empty store
  with three captured samples stores \<open>samples_count = 1\<close>.
\<close>

theorem registration_mode_counts_one_sample:
  "collect_samples Config (reg_capture (ada_run blink_ticks True)) []
     = Some [[1, 0, 0], [1, 0, 0], [1, 0, 0]]
   \<and> registration_mode Config (ada_run blink_ticks True) empty_store
     = Some (Inr (Registered,
         \<lparr>users = [(''1000'', [(''name'', PStr ''Ada''), (''features'', PFloats [1, 0, 0]),
                               (''registered_at'', PStr ''(2024, 1, 1)''), (''samples_count'', PInt 1)])],
          saves = [([(''1000'', [(''name'', PStr ''Ada''), (''features'', PFloats [1, 0, 0]),
                               (''registered_at'', PStr ''(2024, 1, 1)''), (''samples_count'', PInt 1)])],
                    True)]\<rparr>))"
  by (simp add: registration_mode_def ada_run_def collect_three liveness_blink avg_three
        add_user_def save_db_def py_str_1000 new_user_record_def empty_store_def Let_def
      del: collect_samples.simps)

text \<open>
  Re-enrolment and the first draft do count the samples.
\<close>

lemma recollect_user_features_counts_samples:
  assumes "get_user s user_id = Some user" and "dict_getitem user ''name'' = Inr name"
    and "collect_samples cfg ticks [] = Some samples" and "samples \<noteq> []"
    and "\<forall>f \<in> set samples. length f = n"
  shows "\<exists>s' msg user'. recollect_user_features cfg user_id ticks ok s = Some (Inr (msg, s'))
           \<and> get_user s' user_id = Some user'
           \<and> dict_getitem user' ''samples_count'' = Inr (PInt (int (length samples)))"
proof -
  from assms(2) have ne: "user \<noteq> []" by (auto simp: dict_getitem_def)
  from avg_features_mean [OF assms(4,5)] obtain avg where avg: "avg_features samples = Inr avg"
    by blast
  show ?thesis
    using assms(1,2,3,4) ne avg
    by (simp add: recollect_user_features_def save_db_def Let_def get_user_def update_conv'
          dict_getitem_def)
qed

lemma register_commit_v1_counts_samples:
  "get_user (snd (register_commit_v1 name samples avg ticks_ms localtime True s)) (py_str ticks_ms)
     = Some [(''name'', PStr name), (''descriptor'', PFloats avg),
             (''registration_time'', PStr localtime), (''samples_count'', PInt (int (length samples)))]"
  by (simp add: register_commit_v1_def Let_def get_user_def update_conv')

text \<open>
  The first draft also deletes the new record when the write fails, which \<open>add_user\<close> no
  longer does.
\<close>

lemma register_commit_v1_reverts:
  "fst (register_commit_v1 name samples avg ticks_ms localtime False s) = False
   \<and> py_str ticks_ms \<notin> fst ` set (users (snd (register_commit_v1 name samples avg ticks_ms localtime False s)))"
  by (simp add: register_commit_v1_def Let_def delete_notin_dom)

text \<open>
  C8. A run of \<open>_registration_mode\<close> that returns, and in which the name entry was
  cancelled, or the capture loop ended with no sample, or the liveness check failed, ends on
  the message of that case and with the state it started in: the dict of users is the same
  and \<open>save_db\<close> was not called.
\<close>

theorem registration_mode_abort_leaves_store:
  assumes "registration_mode cfg inp s = Some r"
    and "reg_name inp = []
         \<or> collect_samples cfg (reg_capture inp) [] = Some []
         \<or> liveness_detection cfg (reg_liveness inp) = Some False"
  shows "r = Inr (RegistrationCancelled, s) \<or> r = Inr (NoValidSamples, s) \<or> r = Inr (LivenessFailed, s)"
  using assms
  by (auto simp: registration_mode_def split: if_splits option.splits)

theorem registration_mode_abort_leaves_store_witness:
  "liveness_detection Config (reg_liveness (ada_run timeout_ticks True)) = Some False
   \<and> registration_mode Config (ada_run timeout_ticks True) empty_store
       = Some (Inr (LivenessFailed, empty_store))"
proof -
  have live: "liveness_detection Config (reg_liveness (ada_run timeout_ticks True)) = Some False"
    by (simp only: ada_run_fields liveness_timeout)
  have run: "registration_mode Config (ada_run timeout_ticks True) empty_store
       = Some (Inr (LivenessFailed, empty_store))"
    by (simp add: registration_mode_def ada_run_fields collect_three liveness_timeout
          del: collect_samples.simps)
  from registration_mode_abort_leaves_store [OF run] live
  have "(Inr (LivenessFailed, empty_store) :: error + message \<times> app_state) = Inr (RegistrationCancelled, empty_store)
      \<or> (Inr (LivenessFailed, empty_store) :: error + message \<times> app_state) = Inr (NoValidSamples, empty_store)
      \<or> (Inr (LivenessFailed, empty_store) :: error + message \<times> app_state) = Inr (LivenessFailed, empty_store)"
    by blast
  with live run show ?thesis by simp
qed

text \<open>The same seen from the message: only the two messages of the commit go with a changed state.\<close>

lemma registration_mode_state_changes_only_on_commit:
  assumes "registration_mode cfg inp s = Some (Inr (msg, s'))"
    and "msg \<noteq> Registered" and "msg \<noteq> RegistrationFailed"
  shows "s' = s"
  using assms
  by (auto simp: registration_mode_def Let_def split_beta split: if_splits option.splits sum.splits)

section \<open>The stored record\<close>

text \<open>The JSON value written for a store is read back as that store.\<close>

lemma those_map_Some:
  "(\<And>x. x \<in> set xs \<Longrightarrow> f x = Some (g x)) \<Longrightarrow> those (map f xs) = Some (map g xs)"
  by (induction xs) auto

lemma json_to_pyval_inverse: "json_to_pyval (pyval_to_json v) = Some v"
proof (cases v)
  case (PFloats f)
  have "those (map json_number (map JReal f)) = Some f"
    by (induction f) auto
  with PFloats show ?thesis by simp
qed simp_all

lemma json_to_record_inverse: "json_to_record (record_to_json user_data) = Some user_data"
proof -
  have "those (map (\<lambda>(k, j). map_option (Pair k) (json_to_pyval j))
                (map (\<lambda>(k, v). (k, pyval_to_json v)) user_data)) = Some user_data"
    by (induction user_data) (auto simp: json_to_pyval_inverse)
  then show ?thesis by (simp add: record_to_json_def)
qed

lemma load_users_inverse: "load_users (dump_users u) = Some u"
proof -
  have "those (map (\<lambda>(user_id, j). map_option (Pair user_id) (json_to_record j))
                (map (\<lambda>(user_id, user_data). (user_id, record_to_json user_data)) u)) = Some u"
    by (induction u) (auto simp: json_to_record_inverse)
  then show ?thesis by (simp add: dump_users_def)
qed

text \<open>
  C4. The claim names the fields \<open>name\<close>, \<open>descriptor\<close>, \<open>registered_at\<close> and
  \<open>sample_count\<close>. Amended in the names only: when the write succeeds, the record that
  \<open>add_user\<close> commits is an object with exactly the fields \<open>name\<close> (a string),
  \<open>features\<close> (a list of numbers), \<open>registered_at\<close> (a string) and \<open>samples_count\<close> (an
  integer), and \<open>UserDatabase.add\<close> of the second draft commits one with \<open>name\<close>,
  \<open>descriptor\<close>, \<open>registration_time\<close> and \<open>samples_count\<close>; what \<open>_load_db\<close> reads
  from the file that \<open>save_db\<close> wrote is the store again, with that record under the new
  id, the same field names and the same types of values, \<open>json.load\<close> being the inverse of
  \<open>json.dump\<close>.
\<close>

theorem add_user_record_round_trip:
  assumes "\<forall>u. json_load (json_dump u) = Some u"
  shows "(\<exists>user_id s' content loaded user_data n.
           add_user name features ticks_ms localtime True s = ((True, user_id), s')
         \<and> file_after_save json_dump s' = Some content
         \<and> load_db json_load (Some content) = loaded
         \<and> loaded = users s'
         \<and> map_of loaded user_id = Some user_data
         \<and> map fst user_data = [''name'', ''features'', ''registered_at'', ''samples_count'']
         \<and> map (type_of \<circ> snd) user_data = [TStr, TFloatList, TStr, TInt]
         \<and> dict_getitem user_data ''name'' = Inr (PStr name)
         \<and> dict_getitem user_data ''features'' = Inr (PFloats features)
         \<and> dict_getitem user_data ''registered_at'' = Inr (PStr localtime)
         \<and> dict_getitem user_data ''samples_count'' = Inr (PInt n))
   \<and> (\<exists>user_id s' content loaded user_data n.
           UserDatabase_add name features ticks_ms localtime True s = ((True, user_id), s')
         \<and> file_after_save json_dump s' = Some content
         \<and> load_db json_load (Some content) = loaded
         \<and> loaded = users s'
         \<and> map_of loaded user_id = Some user_data
         \<and> map fst user_data = [''name'', ''descriptor'', ''registration_time'', ''samples_count'']
         \<and> map (type_of \<circ> snd) user_data = [TStr, TFloatList, TStr, TInt]
         \<and> dict_getitem user_data ''name'' = Inr (PStr name)
         \<and> dict_getitem user_data ''descriptor'' = Inr (PFloats features)
         \<and> dict_getitem user_data ''registration_time'' = Inr (PStr localtime)
         \<and> dict_getitem user_data ''samples_count'' = Inr (PInt n))"
  using assms
  by (simp add: add_user_def UserDatabase_add_def save_db_def Let_def file_after_save_def
        load_db_def update_conv' new_user_record_def new_user_record_v2_def dict_getitem_def)

theorem add_user_record_round_trip_witness:
  "(\<forall>u. load_users (dump_users u) = Some u)
   \<and> file_after_save dump_users (snd (add_user ''Ada'' [1, 0, 0] 1000 ''(2024, 1, 1)'' True empty_store))
       = Some (JObject [(''1000'',
                  JObject [(''name'', JString ''Ada''),
                           (''features'', JArray [JReal 1, JReal 0, JReal 0]),
                           (''registered_at'', JString ''(2024, 1, 1)''),
                           (''samples_count'', JInt 1)])])
   \<and> load_db load_users
         (file_after_save dump_users (snd (add_user ''Ada'' [1, 0, 0] 1000 ''(2024, 1, 1)'' True empty_store)))
       = users (snd (add_user ''Ada'' [1, 0, 0] 1000 ''(2024, 1, 1)'' True empty_store))
   \<and> map_of (load_db load_users
         (file_after_save dump_users (snd (add_user ''Ada'' [1, 0, 0] 1000 ''(2024, 1, 1)'' True empty_store))))
         ''1000''
       = Some [(''name'', PStr ''Ada''), (''features'', PFloats [1, 0, 0]),
               (''registered_at'', PStr ''(2024, 1, 1)''), (''samples_count'', PInt 1)]"
proof -
  let ?s = "snd (add_user ''Ada'' [1, 0, 0] 1000 ''(2024, 1, 1)'' True empty_store)"
  have contract: "\<forall>u. load_users (dump_users u) = Some u"
    by (simp add: load_users_inverse)
  from add_user_record_round_trip
         [where json_load = load_users and json_dump = dump_users and name = "''Ada''"
            and features = "[1, 0, 0]" and ticks_ms = 1000 and localtime = "''(2024, 1, 1)''"
            and s = empty_store, OF contract]
  obtain user_id s' content where
    r: "add_user ''Ada'' [1, 0, 0] 1000 ''(2024, 1, 1)'' True empty_store = ((True, user_id), s')"
       "file_after_save dump_users s' = Some content"
       "load_db load_users (Some content) = users s'"
    by blast
  from r have reload: "load_db load_users (file_after_save dump_users ?s) = users ?s"
    by simp
  have stored: "users ?s = [(''1000'', [(''name'', PStr ''Ada''), (''features'', PFloats [1, 0, 0]),
               (''registered_at'', PStr ''(2024, 1, 1)''), (''samples_count'', PInt 1)])]"
    by (simp add: add_user_def save_db_def Let_def py_str_1000 empty_store_def new_user_record_def)
  have written: "file_after_save dump_users ?s
       = Some (JObject [(''1000'',
                  JObject [(''name'', JString ''Ada''),
                           (''features'', JArray [JReal 1, JReal 0, JReal 0]),
                           (''registered_at'', JString ''(2024, 1, 1)''),
                           (''samples_count'', JInt 1)])])"
    by (simp add: add_user_def save_db_def Let_def py_str_1000 empty_store_def new_user_record_def
          file_after_save_def dump_users_def record_to_json_def)
  from contract written reload stored show ?thesis by simp
qed

theorem add_user_record_fields_counterexample:
  "get_user (snd (add_user ''Ada'' [1, 0, 0] 1000 ''(2024, 1, 1)'' True empty_store)) ''1000''
     = Some (new_user_record ''Ada'' [1, 0, 0] ''(2024, 1, 1)'')
   \<and> map fst (new_user_record ''Ada'' [1, 0, 0] ''(2024, 1, 1)'')
       \<noteq> [''name'', ''descriptor'', ''registered_at'', ''sample_count'']
   \<and> dict_getitem (new_user_record ''Ada'' [1, 0, 0] ''(2024, 1, 1)'') ''descriptor'' = Inl KeyError
   \<and> dict_getitem (new_user_record ''Ada'' [1, 0, 0] ''(2024, 1, 1)'') ''sample_count'' = Inl KeyError"
  by (simp add: add_user_def save_db_def get_user_def Let_def py_str_1000 empty_store_def
        new_user_record_def dict_getitem_def)

text \<open>
  C5. The claim: the id that \<open>add_user\<close> generates is never a key of the store already. The
  id is the decimal string of \<open>time.ticks_ms()\<close> and nothing compares it with the keys:
  with a record stored under \<open>''30000''\<close> and the clock at 30000, \<open>add_user\<close> returns
  \<open>''30000''\<close> and the new record replaces the old one.
\<close>

theorem add_user_same_tick_overwrites:
  "get_user \<lparr>users = [(''30000'', new_user_record ''Ada'' [1, 0, 0] ''(2024, 1, 1)'')], saves = []\<rparr> ''30000''
     = Some (new_user_record ''Ada'' [1, 0, 0] ''(2024, 1, 1)'')
   \<and> add_user ''Bob'' [0, 1, 0] 30000 ''(2024, 1, 2)'' True
       \<lparr>users = [(''30000'', new_user_record ''Ada'' [1, 0, 0] ''(2024, 1, 1)'')], saves = []\<rparr>
     = ((True, ''30000''),
        \<lparr>users = [(''30000'', new_user_record ''Bob'' [0, 1, 0] ''(2024, 1, 2)'')],
         saves = [([(''30000'', new_user_record ''Bob'' [0, 1, 0] ''(2024, 1, 2)'')], True)]\<rparr>)"
  by (simp add: add_user_def save_db_def get_user_def Let_def py_str_30000)

text \<open>An id that is not yet a key is appended and every stored record is kept.\<close>

lemma update_new_key_appends:
  "k \<notin> fst ` set al \<Longrightarrow> AList.update k v al = al @ [(k, v)]"
  by (induction al) auto

lemma add_user_fresh_id_appends:
  "py_str ticks_ms \<notin> fst ` set (users s) \<Longrightarrow>
   users (snd (add_user name features ticks_ms localtime ok s))
     = users s @ [(py_str ticks_ms, new_user_record name features localtime)]"
  by (simp add: add_user_def save_db_def Let_def update_new_key_appends)

section \<open>Liveness detection\<close>

lemma liveness_loop_closed:
  "liveness_loop cfg ticks eyes_detected = Some (ed, True) \<Longrightarrow>
   \<exists>pre y rest. ticks = pre @ y # rest \<and> live_faces y \<noteq> [] \<and> live_eyes y = [] \<and>
     (\<forall>t \<in> set (pre @ [y]). live_elapsed t < LIVENESS_TIMEOUT cfg) \<and>
     (eyes_detected \<or> (\<exists>a x b. pre = a @ x # b \<and> live_faces x \<noteq> [] \<and> live_eyes x \<noteq> []))"
proof (induction ticks arbitrary: eyes_detected)
  case Nil
  then show ?case by simp
next
  case (Cons t ts)
  from Cons.prems have time: "live_elapsed t < LIVENESS_TIMEOUT cfg"
    by (auto split: if_splits)
  show ?case
  proof (cases "live_faces t \<noteq> [] \<and> eyes_detected \<and> live_eyes t = []")
    case True
    with time have "t # ts = [] @ t # ts \<and> live_faces t \<noteq> [] \<and> live_eyes t = [] \<and>
        (\<forall>u \<in> set ([] @ [t]). live_elapsed u < LIVENESS_TIMEOUT cfg) \<and> eyes_detected"
      by simp
    then show ?thesis by blast
  next
    case False
    define seen where "seen = (eyes_detected \<or> (live_faces t \<noteq> [] \<and> live_eyes t \<noteq> []))"
    from Cons.prems time False have rec: "liveness_loop cfg ts seen = Some (ed, True)"
      by (auto simp: seen_def split: if_splits)
    from Cons.IH [OF rec] obtain pre y rest where
      d: "ts = pre @ y # rest" "live_faces y \<noteq> []" "live_eyes y = []"
         "\<forall>u \<in> set (pre @ [y]). live_elapsed u < LIVENESS_TIMEOUT cfg"
         "seen \<or> (\<exists>a x b. pre = a @ x # b \<and> live_faces x \<noteq> [] \<and> live_eyes x \<noteq> [])"
      by blast
    have split: "t # ts = (t # pre) @ y # rest" using d(1) by simp
    have times: "\<forall>u \<in> set ((t # pre) @ [y]). live_elapsed u < LIVENESS_TIMEOUT cfg"
      using d(4) time by simp
    have before: "eyes_detected \<or> (\<exists>a x b. t # pre = a @ x # b \<and> live_faces x \<noteq> [] \<and> live_eyes x \<noteq> [])"
    proof (cases eyes_detected)
      case True
      then show ?thesis by simp
    next
      case nd: False
      from d(5) show ?thesis
      proof
        assume seen
        with nd have "t # pre = [] @ t # pre \<and> live_faces t \<noteq> [] \<and> live_eyes t \<noteq> []"
          by (simp add: seen_def)
        then show ?thesis by blast
      next
        assume "\<exists>a x b. pre = a @ x # b \<and> live_faces x \<noteq> [] \<and> live_eyes x \<noteq> []"
        then obtain a x b where "pre = a @ x # b" "live_faces x \<noteq> []" "live_eyes x \<noteq> []" by blast
        then have "t # pre = (t # a) @ x # b \<and> live_faces x \<noteq> [] \<and> live_eyes x \<noteq> []" by simp
        then show ?thesis by blast
      qed
    qed
    from split d(2,3) times before show ?thesis by blast
  qed
qed

lemma liveness_loop_timeout:
  assumes "\<not> live_elapsed t < LIVENESS_TIMEOUT cfg"
    and "eyes_detected \<longrightarrow> (\<forall>y \<in> set pre. \<not> (live_faces y \<noteq> [] \<and> live_eyes y = []))"
    and "\<not> (\<exists>a x b y c. pre = a @ x # b @ y # c \<and> live_faces x \<noteq> [] \<and> live_eyes x \<noteq> [] \<and>
              live_faces y \<noteq> [] \<and> live_eyes y = [])"
  shows "\<exists>ed. liveness_loop cfg (pre @ t # rest) eyes_detected = Some (ed, False)"
  using assms(2,3)
proof (induction pre arbitrary: eyes_detected)
  case Nil
  with assms(1) show ?case by simp
next
  case (Cons p ps)
  define seen where "seen = (eyes_detected \<or> (live_faces p \<noteq> [] \<and> live_eyes p \<noteq> []))"
  have no_close: "\<not> (live_faces p \<noteq> [] \<and> eyes_detected \<and> live_eyes p = [])"
    using Cons.prems(1) by auto
  have later: "seen \<longrightarrow> (\<forall>y \<in> set ps. \<not> (live_faces y \<noteq> [] \<and> live_eyes y = []))"
  proof (intro impI ballI notI)
    fix y assume seen and y: "y \<in> set ps" and ab: "live_faces y \<noteq> [] \<and> live_eyes y = []"
    from y obtain b c where ps: "ps = b @ y # c" by (auto dest: split_list)
    show False
    proof (cases eyes_detected)
      case True
      with Cons.prems(1) y ab show False by auto
    next
      case False
      with \<open>seen\<close> have "live_faces p \<noteq> [] \<and> live_eyes p \<noteq> []" by (simp add: seen_def)
      with ps ab have "p # ps = [] @ p # b @ y # c \<and> live_faces p \<noteq> [] \<and> live_eyes p \<noteq> [] \<and>
          live_faces y \<noteq> [] \<and> live_eyes y = []" by simp
      with Cons.prems(2) show False by blast
    qed
  qed
  have inner: "\<not> (\<exists>a x b y c. ps = a @ x # b @ y # c \<and> live_faces x \<noteq> [] \<and> live_eyes x \<noteq> [] \<and>
              live_faces y \<noteq> [] \<and> live_eyes y = [])"
  proof
    assume "\<exists>a x b y c. ps = a @ x # b @ y # c \<and> live_faces x \<noteq> [] \<and> live_eyes x \<noteq> [] \<and>
              live_faces y \<noteq> [] \<and> live_eyes y = []"
    then obtain a x b y c where "ps = a @ x # b @ y # c" "live_faces x \<noteq> []" "live_eyes x \<noteq> []"
        "live_faces y \<noteq> []" "live_eyes y = []" by blast
    then have "p # ps = (p # a) @ x # b @ y # c \<and> live_faces x \<noteq> [] \<and> live_eyes x \<noteq> [] \<and>
              live_faces y \<noteq> [] \<and> live_eyes y = []" by simp
    with Cons.prems(2) show False by blast
  qed
  from Cons.IH [OF later inner] obtain ed where
    rec: "liveness_loop cfg (ps @ t # rest) seen = Some (ed, False)" by blast
  show ?case
    using no_close rec by (auto simp: seen_def)
qed

text \<open>
  C9. When \<open>_liveness_detection\<close> returns true, the readings hold a pass \<open>x\<close> with a face
  and eyes in it and a later pass \<open>y\<close> with a face and no eyes, and at every pass up to
  \<open>y\<close> the elapsed time was below the timeout. When the readings reach a pass \<open>t\<close> at
  which the elapsed time is not below the timeout, and no such pair of passes lies before
  \<open>t\<close>, it returns false.
\<close>

theorem liveness_detection_blink_within_timeout:
  "(liveness_detection cfg ticks = Some True \<longrightarrow>
      (\<exists>a x b y c. ticks = a @ x # b @ y # c \<and>
         live_faces x \<noteq> [] \<and> live_eyes x \<noteq> [] \<and> live_faces y \<noteq> [] \<and> live_eyes y = [] \<and>
         (\<forall>t \<in> set (a @ x # b @ [y]). live_elapsed t < LIVENESS_TIMEOUT cfg)))
   \<and> (\<forall>pre t rest.
        ticks = pre @ t # rest \<and> \<not> live_elapsed t < LIVENESS_TIMEOUT cfg \<and>
        \<not> (\<exists>a x b y c. pre = a @ x # b @ y # c \<and>
              live_faces x \<noteq> [] \<and> live_eyes x \<noteq> [] \<and> live_faces y \<noteq> [] \<and> live_eyes y = [])
        \<longrightarrow> liveness_detection cfg ticks = Some False)"
proof (intro conjI impI allI)
  assume "liveness_detection cfg ticks = Some True"
  then obtain ed where "liveness_loop cfg ticks False = Some (ed, True)"
    by (auto simp: liveness_detection_def split: option.splits)
  from liveness_loop_closed [OF this] obtain pre y rest a x b where
    "ticks = pre @ y # rest" "live_faces y \<noteq> []" "live_eyes y = []"
    "\<forall>t \<in> set (pre @ [y]). live_elapsed t < LIVENESS_TIMEOUT cfg"
    "pre = a @ x # b" "live_faces x \<noteq> []" "live_eyes x \<noteq> []"
    by blast
  then have "ticks = a @ x # b @ y # rest \<and>
         live_faces x \<noteq> [] \<and> live_eyes x \<noteq> [] \<and> live_faces y \<noteq> [] \<and> live_eyes y = [] \<and>
         (\<forall>t \<in> set (a @ x # b @ [y]). live_elapsed t < LIVENESS_TIMEOUT cfg)"
    by simp
  then show "\<exists>a x b y c. ticks = a @ x # b @ y # c \<and>
         live_faces x \<noteq> [] \<and> live_eyes x \<noteq> [] \<and> live_faces y \<noteq> [] \<and> live_eyes y = [] \<and>
         (\<forall>t \<in> set (a @ x # b @ [y]). live_elapsed t < LIVENESS_TIMEOUT cfg)"
    by blast
next
  fix pre t rest
  assume h: "ticks = pre @ t # rest \<and> \<not> live_elapsed t < LIVENESS_TIMEOUT cfg \<and>
        \<not> (\<exists>a x b y c. pre = a @ x # b @ y # c \<and>
              live_faces x \<noteq> [] \<and> live_eyes x \<noteq> [] \<and> live_faces y \<noteq> [] \<and> live_eyes y = [])"
  then have "\<exists>ed. liveness_loop cfg (pre @ t # rest) False = Some (ed, False)"
    by (intro liveness_loop_timeout) simp_all
  with h show "liveness_detection cfg ticks = Some False"
    by (auto simp: liveness_detection_def)
qed

theorem liveness_detection_blink_within_timeout_witness:
  "liveness_detection Config blink_ticks = Some True
   \<and> (\<exists>a x b y c. blink_ticks = a @ x # b @ y # c \<and>
         live_faces x \<noteq> [] \<and> live_eyes x \<noteq> [] \<and> live_faces y \<noteq> [] \<and> live_eyes y = [] \<and>
         (\<forall>t \<in> set (a @ x # b @ [y]). live_elapsed t < LIVENESS_TIMEOUT Config))
   \<and> \<not> live_elapsed (timeout_ticks ! 1) < LIVENESS_TIMEOUT Config
   \<and> liveness_detection Config timeout_ticks = Some False"
proof -
  have pass: "liveness_detection Config blink_ticks = Some True"
    by (rule liveness_blink)
  from liveness_detection_blink_within_timeout [of Config blink_ticks] pass
  have blink: "\<exists>a x b y c. blink_ticks = a @ x # b @ y # c \<and>
         live_faces x \<noteq> [] \<and> live_eyes x \<noteq> [] \<and> live_faces y \<noteq> [] \<and> live_eyes y = [] \<and>
         (\<forall>t \<in> set (a @ x # b @ [y]). live_elapsed t < LIVENESS_TIMEOUT Config)"
    by blast
  let ?p = "\<lparr>live_elapsed = 0, live_faces = [(0, 0, 100, 100)], live_eyes = [(20, 30, 15, 10)],
       live_back = False\<rparr> :: live_tick"
  let ?t = "\<lparr>live_elapsed = 5000, live_faces = [(0, 0, 100, 100)], live_eyes = [],
       live_back = False\<rparr> :: live_tick"
  have split: "timeout_ticks = [?p] @ ?t # []"
    by (simp add: timeout_ticks_def)
  have late: "\<not> live_elapsed ?t < LIVENESS_TIMEOUT Config"
    by (simp add: Config_def)
  have none: "\<not> (\<exists>a x b y c. [?p] = a @ x # b @ y # c \<and>
              live_faces x \<noteq> [] \<and> live_eyes x \<noteq> [] \<and> live_faces y \<noteq> [] \<and> live_eyes y = [])"
    by (auto simp: Cons_eq_append_conv)
  from liveness_detection_blink_within_timeout [of Config timeout_ticks] split late none
  have fail: "liveness_detection Config timeout_ticks = Some False"
    by blast
  have "\<not> live_elapsed (timeout_ticks ! 1) < LIVENESS_TIMEOUT Config"
    by (simp add: timeout_ticks_def Config_def)
  with pass blink fail show ?thesis by blast
qed

end
